theory Spec2Isabelle
  imports Complex_Main "HOL-Library.Multiset"
begin

section \<open>JavaScript values used by the dashboard's data layer\<close>

text \<open>
  A JavaScript number is modelled by its exact value: a finite number is a rational
  (every finite double is one), and the three non-finite numbers are kept apart, so that
  a division by zero is visible as \<open>NaN\<close> or an infinity. The operators below give
  the exact result of an operation; IEEE 754 then rounds that result to the nearest
  double, which \<open>round_double\<close> does. The weekly mean of \<open>fetchScoreHistory\<close> is
  modelled with this rounding, since the digit that \<open>toFixed\<close> prints depends on it;
  the statistics of \<open>fetchDashboardStats\<close> and of the test-history page are modelled
  with the exact operators. The sign of zero is not modelled.
\<close>

datatype jsnum = Fin rat | PosInf | NegInf | NaN

text \<open>
  A column of a row as the store returns it in JSON: a finite number, \<open>null\<close>, or a
  property that is absent (reading it gives \<open>undefined\<close>).
\<close>

datatype jsval = Undefined | Null | Num rat

text \<open>\<open>ToNumber\<close>, the coercion that \<open>+\<close> applies to an operand that is not a string.\<close>

fun ToNumber :: "jsval \<Rightarrow> jsnum" where
  "ToNumber Undefined = NaN"
| "ToNumber Null = Fin 0"
| "ToNumber (Num x) = Fin x"

text \<open>The operators \<open>+\<close>, \<open>/\<close>, \<open>*\<close> and \<open>>=\<close> on numbers.\<close>

fun js_add :: "jsnum \<Rightarrow> jsnum \<Rightarrow> jsnum" where
  "js_add (Fin a) (Fin b) = Fin (a + b)"
| "js_add NaN y = NaN"
| "js_add x NaN = NaN"
| "js_add PosInf NegInf = NaN"
| "js_add NegInf PosInf = NaN"
| "js_add PosInf y = PosInf"
| "js_add x PosInf = PosInf"
| "js_add NegInf y = NegInf"
| "js_add x NegInf = NegInf"

fun js_div :: "jsnum \<Rightarrow> jsnum \<Rightarrow> jsnum" where
  "js_div (Fin a) (Fin b) =
     (if b = 0 then (if a = 0 then NaN else if 0 < a then PosInf else NegInf)
      else Fin (a / b))"
| "js_div NaN y = NaN"
| "js_div x NaN = NaN"
| "js_div (Fin a) PosInf = Fin 0"
| "js_div (Fin a) NegInf = Fin 0"
| "js_div PosInf (Fin b) = (if 0 \<le> b then PosInf else NegInf)"
| "js_div NegInf (Fin b) = (if 0 \<le> b then NegInf else PosInf)"
| "js_div x y = NaN"

fun js_mul :: "jsnum \<Rightarrow> jsnum \<Rightarrow> jsnum" where
  "js_mul (Fin a) (Fin b) = Fin (a * b)"
| "js_mul NaN y = NaN"
| "js_mul x NaN = NaN"
| "js_mul (Fin a) PosInf = (if a = 0 then NaN else if 0 < a then PosInf else NegInf)"
| "js_mul (Fin a) NegInf = (if a = 0 then NaN else if 0 < a then NegInf else PosInf)"
| "js_mul PosInf (Fin b) = (if b = 0 then NaN else if 0 < b then PosInf else NegInf)"
| "js_mul NegInf (Fin b) = (if b = 0 then NaN else if 0 < b then NegInf else PosInf)"
| "js_mul PosInf PosInf = PosInf"
| "js_mul NegInf NegInf = PosInf"
| "js_mul PosInf NegInf = NegInf"
| "js_mul NegInf PosInf = NegInf"

fun js_ge :: "jsnum \<Rightarrow> jsnum \<Rightarrow> bool" where
  "js_ge (Fin a) (Fin b) = (b \<le> a)"
| "js_ge NaN y = False"
| "js_ge x NaN = False"
| "js_ge PosInf y = True"
| "js_ge x NegInf = True"
| "js_ge x y = False"

text \<open>
  \<open>v || 0\<close> on a column value: \<open>undefined\<close>, \<open>null\<close> and \<open>0\<close> are falsy, every other
  number is kept.
\<close>

fun or_zero :: "jsval \<Rightarrow> jsnum" where
  "or_zero Undefined = Fin 0"
| "or_zero Null = Fin 0"
| "or_zero (Num x) = (if x = 0 then Fin 0 else Fin x)"

text \<open>\<open>x || 0\<close> on a computed number: \<open>0\<close> and \<open>NaN\<close> are falsy.\<close>

fun num_or_zero :: "jsnum \<Rightarrow> jsnum" where
  "num_or_zero (Fin a) = (if a = 0 then Fin 0 else Fin a)"
| "num_or_zero NaN = Fin 0"
| "num_or_zero x = x"

text \<open>
  Rounding to binary64, to nearest with ties to even. \<open>bit_length k\<close> is the number of
  binary digits of a positive integer, and \<open>ilog2 x\<close> the exponent \<open>e\<close> with
  \<open>2 ^ e \<le> x < 2 ^ (e + 1)\<close> of a positive rational. A double in that binade is a
  multiple of \<open>2 ^ (e - 52)\<close>; below \<open>2 ^ (- 1022)\<close> the spacing stays that of the
  subnormal numbers, and a result that rounds to \<open>2 ^ 1024\<close> or beyond is an infinity.
\<close>

function bit_length :: "int \<Rightarrow> nat" where
  "bit_length k = (if k \<le> 0 then 0 else Suc (bit_length (k div 2)))"
  by pat_completeness auto
termination
  by (relation "measure nat") auto

declare bit_length.simps [simp del]

definition ilog2 :: "rat \<Rightarrow> int" where
  "ilog2 x =
     (case quotient_of x of (p, q) \<Rightarrow>
        (let d = int (bit_length p) - int (bit_length q)
         in if 2 powi d \<le> x then d else d - 1))"

definition round_half_even :: "rat \<Rightarrow> int" where
  "round_half_even m =
     (let f = \<lfloor>m\<rfloor>; r = m - of_int f
      in if r < 1 / 2 then f else if 1 / 2 < r then f + 1 else if f mod 2 = 0 then f else f + 1)"

definition dbl :: "rat \<Rightarrow> jsnum" where
  "dbl x =
     (if x = 0 then Fin 0
      else
        (let e = max (ilog2 \<bar>x\<bar>) (- 1022);
             ulp = 2 powi (e - 52);
             n = round_half_even (\<bar>x\<bar> / ulp)
         in if 1023 < e \<or> (e = 1023 \<and> 9007199254740992 \<le> n)
            then (if 0 < x then PosInf else NegInf)
            else Fin (sgn x * (of_int n * ulp))))"

fun round_double :: "jsnum \<Rightarrow> jsnum" where
  "round_double (Fin x) = dbl x"
| "round_double x = x"

text \<open>
  The text that \<open>toFixed\<close> produces is kept as what it denotes: \<open>Fixed n f\<close> is the decimal
  numeral of \<open>n / 10 ^ f\<close> written with \<open>f\<close> fraction digits (\<open>Fixed 83 1\<close> is the text
  8.3, \<open>Fixed 0 0\<close> is the text 0), and \<open>ToString x\<close> is the default text of the number
  \<open>x\<close>. \<open>toFixed\<close> follows Number.prototype.toFixed: a number that is not finite, or whose
  magnitude reaches \<open>10 ^ 21\<close>, is printed by default; otherwise the integer \<open>n\<close> with
  \<open>n / 10 ^ f\<close> nearest to the magnitude is taken, the larger one of two.
  \<open>Number\<close> reads such a text back.
\<close>

datatype numstr = Fixed int nat | ToString jsnum

fun toFixed :: "nat \<Rightarrow> jsnum \<Rightarrow> numstr" where
  "toFixed f (Fin q) =
     (if \<bar>q\<bar> < 10 ^ 21
      then Fixed (if q < 0 then - \<lfloor>- q * 10 ^ f + 1 / 2\<rfloor> else \<lfloor>q * 10 ^ f + 1 / 2\<rfloor>) f
      else ToString (Fin q))"
| "toFixed f x = ToString x"

fun Number :: "numstr \<Rightarrow> jsnum" where
  "Number (Fixed n f) = Fin (of_int n / 10 ^ f)"
| "Number (ToString x) = x"

text \<open>\<open>Math.round\<close>: the nearest integer, a tie going up.\<close>

fun Math_round :: "jsnum \<Rightarrow> jsnum" where
  "Math_round (Fin q) = Fin (of_int \<lfloor>q + 1 / 2\<rfloor>)"
| "Math_round x = x"

text \<open>\<open>slice(-n)\<close> keeps the last \<open>n\<close> elements, all of them when there are fewer.\<close>

definition slice_last :: "nat \<Rightarrow> 'a list \<Rightarrow> 'a list" where
  "slice_last n xs = drop (length xs - n) xs"

text \<open>\<open>String.prototype.includes\<close>: the second string occurs in the first.\<close>

fun starts_with :: "string \<Rightarrow> string \<Rightarrow> bool" where
  "starts_with s [] = True"
| "starts_with [] (q # qs) = False"
| "starts_with (c # cs) (q # qs) = (c = q \<and> starts_with cs qs)"

fun str_includes :: "string \<Rightarrow> string \<Rightarrow> bool" where
  "str_includes [] q = (q = [])"
| "str_includes (c # cs) q = (starts_with (c # cs) q \<or> str_includes cs q)"

section \<open>Rows of the remote store\<close>

text \<open>
  The columns of \<open>vw_agent_performance_summary\<close> and \<open>vw_test_results_history\<close> that the
  functions below read. Both views carry the owning agent's identity, name and version.
  \<open>tested_at\<close> is held as the time value that \<open>new Date(tested_at)\<close> gives, in
  milliseconds since the epoch.
\<close>

record AgentRef =
  agent_version_id :: string
  agent_name :: string
  version :: string

record AgentPerformanceSummary = AgentRef +
  status :: string
  last_test_score :: jsval
  last_test_at :: "string option"
  created_at :: "string option"
  total_testes_executados :: jsval

record LatestTestResult = AgentRef +
  test_result_id :: string
  overall_score :: rat
  test_duration_ms :: rat
  tested_at :: int

text \<open>What an awaited query returns: the rows (or \<open>null\<close>) and the error (or \<open>null\<close>).\<close>

type_synonym PostgrestError = string

record 'a response =
  data :: "'a list option"
  error :: "PostgrestError option"

section \<open>fetchDashboardStats\<close>

record DashboardStats =
  totalAgents :: nat
  averageScore :: jsnum
  testsRun :: jsnum
  passRate :: jsnum

definition validScores_of :: "AgentPerformanceSummary list option \<Rightarrow> AgentPerformanceSummary list" where
  "validScores_of agents =
     (case agents of None \<Rightarrow> [] | Some xs \<Rightarrow> filter (\<lambda>a. last_test_score a \<noteq> Null) xs)"

definition fetchDashboardStats ::
  "AgentPerformanceSummary response \<Rightarrow> PostgrestError + DashboardStats" where
  "fetchDashboardStats r =
     (case error r of
        Some agentsError \<Rightarrow> Inl agentsError
      | None \<Rightarrow>
          (let agents = data r;
               totalAgents = (case agents of None \<Rightarrow> 0 | Some xs \<Rightarrow> length xs);
               validScores = validScores_of agents;
               averageScore =
                 (if length validScores > 0
                  then js_div
                         (foldl (\<lambda>sum a. js_add sum (or_zero (last_test_score a))) (Fin 0) validScores)
                         (Fin (of_nat (length validScores)))
                  else Fin 0);
               testsRun =
                 (case agents of
                    None \<Rightarrow> Fin 0
                  | Some xs \<Rightarrow>
                      num_or_zero
                        (foldl (\<lambda>sum a. js_add sum (ToNumber (total_testes_executados a))) (Fin 0) xs));
               passedTests =
                 length (filter (\<lambda>a. js_ge (or_zero (last_test_score a)) (Fin 8)) validScores);
               passRate =
                 (if length validScores > 0
                  then js_mul (js_div (Fin (of_nat passedTests)) (Fin (of_nat (length validScores))))
                         (Fin 100)
                  else Fin 0)
           in Inr \<lparr>totalAgents = totalAgents,
                   averageScore = Number (toFixed 1 averageScore),
                   testsRun = testsRun,
                   passRate = Number (toFixed 1 passRate)\<rparr>))"

text \<open>
  The sum that the specification gives for \<open>testsRun\<close>, in its words: each record's
  counter, a missing or null counter counting as 0.
\<close>

fun counter_or_0 :: "jsval \<Rightarrow> rat" where
  "counter_or_0 (Num x) = x"
| "counter_or_0 Null = 0"
| "counter_or_0 Undefined = 0"

definition spec_testsRun :: "AgentPerformanceSummary list \<Rightarrow> rat" where
  "spec_testsRun agents = sum_list (map (\<lambda>a. counter_or_0 (total_testes_executados a)) agents)"

section \<open>fetchScoreHistory\<close>

text \<open>
  Time values are milliseconds since the epoch. The local time zone of the runtime is a
  fixed offset \<open>tza\<close> in milliseconds (local time is UTC time plus \<open>tza\<close>; daylight
  saving changes are not modelled). \<open>getDay\<close> reads the weekday of the local date,
  Sunday being 0. \<open>setDate(getDate() - k)\<close> moves the local calendar date back by \<open>k\<close>
  days and keeps the local time of day (a day of the month below 1 runs into the month
  before), so the day of the month itself cancels out. \<open>toISOString\<close> prints the UTC
  date and time; the date part before the T is held as the number of that UTC day
  (days since 1970-01-01), which orders as the dates do.
\<close>

definition msPerDay :: int where
  "msPerDay = 86400000"

definition Day :: "int \<Rightarrow> int" where
  "Day t = t div msPerDay"

definition WeekDay :: "int \<Rightarrow> int" where
  "WeekDay t = (Day t + 4) mod 7"

definition LocalTime :: "int \<Rightarrow> int \<Rightarrow> int" where
  "LocalTime tza t = t + tza"

definition UTC :: "int \<Rightarrow> int \<Rightarrow> int" where
  "UTC tza t = t - tza"

definition getDay :: "int \<Rightarrow> int \<Rightarrow> int" where
  "getDay tza t = WeekDay (LocalTime tza t)"

definition weekStart :: "int \<Rightarrow> int \<Rightarrow> int" where
  "weekStart tza t = UTC tza (LocalTime tza t - getDay tza t * msPerDay)"

definition week_key :: "int \<Rightarrow> int \<Rightarrow> int" where
  "week_key tza t = Day (weekStart tza t)"

record ScoreHistory =
  date :: int
  score :: jsnum

text \<open>
  The \<open>Map\<close> from week key to the scores of that week keeps its keys in the order of
  their first insertion: an association list with distinct keys.
\<close>

type_synonym weeklyScores = "(int \<times> rat list) list"

definition has :: "weeklyScores \<Rightarrow> int \<Rightarrow> bool" where
  "has m key = (key \<in> set (map fst m))"

definition push :: "weeklyScores \<Rightarrow> int \<Rightarrow> rat \<Rightarrow> weeklyScores" where
  "push m key v = map (\<lambda>(k, vs). if k = key then (k, vs @ [v]) else (k, vs)) m"

definition add_test :: "int \<Rightarrow> weeklyScores \<Rightarrow> LatestTestResult \<Rightarrow> weeklyScores" where
  "add_test tza m test =
     (let key = week_key tza (tested_at test);
          m1 = (if \<not> has m key then m @ [(key, [])] else m)
      in push m1 key (overall_score test))"

text \<open>
  The mean of a week, \<open>scores.reduce((a, b) => a + b, 0) / scores.length\<close>: every
  addition and the division are rounded to a double.
\<close>

definition double_mean :: "rat list \<Rightarrow> jsnum" where
  "double_mean scores =
     round_double
       (js_div (foldl (\<lambda>a b. round_double (js_add a b)) (Fin 0) (map Fin scores))
          (Fin (of_nat (length scores))))"

definition week_point :: "int \<times> rat list \<Rightarrow> ScoreHistory" where
  "week_point e =
     (case e of (d, scores) \<Rightarrow> \<lparr>date = d, score = Number (toFixed 1 (double_mean scores))\<rparr>)"

definition fetchScoreHistory ::
  "int \<Rightarrow> LatestTestResult response \<Rightarrow> PostgrestError + ScoreHistory list" where
  "fetchScoreHistory tza r =
     (case error r of
        Some e \<Rightarrow> Inl e
      | None \<Rightarrow>
          (let weeklyScores = (case data r of None \<Rightarrow> [] | Some tests \<Rightarrow> foldl (add_test tza) [] tests)
           in Inr (slice_last 5 (map week_point weeklyScores))))"

section \<open>mapAgentToLegacyFormat\<close>

text \<open>\<open>a || b\<close> on strings that may be null: null and the empty string are falsy.\<close>

fun str_or :: "string option \<Rightarrow> string option \<Rightarrow> string option" where
  "str_or None b = b"
| "str_or (Some s) b = (if s = [] then b else Some s)"

record LegacyAgent =
  legacy_id :: string
  legacy_name :: string
  legacy_version :: string
  legacy_score :: jsnum
  legacy_status :: string
  lastEvaluation :: "string option"

definition mapAgentToLegacyFormat :: "AgentPerformanceSummary \<Rightarrow> LegacyAgent" where
  "mapAgentToLegacyFormat agent =
     \<lparr>legacy_id = agent_version_id agent,
      legacy_name = agent_name agent,
      legacy_version = version agent,
      legacy_score = or_zero (last_test_score agent),
      legacy_status = status agent,
      lastEvaluation = str_or (last_test_at agent) (created_at agent)\<rparr>"

section \<open>The test-history page\<close>

definition getTestStatus :: "rat \<Rightarrow> string" where
  "getTestStatus sc =
     (if sc \<ge> 8 then ''passed'' else if sc \<ge> 6 then ''warning'' else ''failed'')"

text \<open>
  \<open>toLowerCase\<close> is the case mapping of the runtime, over all of Unicode; its table is
  not part of the repository, so it is a parameter of the page's model. A string is the
  list of its characters in an encoding on which a substring search finds what it finds
  on the code units of the runtime (UTF-8 is one, for well-formed strings).
\<close>

definition matchesSearch :: "(string \<Rightarrow> string) \<Rightarrow> string \<Rightarrow> LatestTestResult \<Rightarrow> bool" where
  "matchesSearch toLowerCase searchQuery test =
     str_includes (toLowerCase (agent_name test)) (toLowerCase searchQuery)"

definition matchesStatus :: "string \<Rightarrow> LatestTestResult \<Rightarrow> bool" where
  "matchesStatus statusFilter test =
     (statusFilter = ''all'' \<or> getTestStatus (overall_score test) = statusFilter)"

definition matchesScore :: "string \<Rightarrow> LatestTestResult \<Rightarrow> bool" where
  "matchesScore scoreFilter test =
     (scoreFilter = ''all'' \<or>
      (scoreFilter = ''high'' \<and> overall_score test \<ge> 8) \<or>
      (scoreFilter = ''medium'' \<and> overall_score test \<ge> 7 \<and> overall_score test < 8) \<or>
      (scoreFilter = ''low'' \<and> overall_score test < 7))"

text \<open>
  The comparator of the sort is the difference of the two time values, later first;
  \<open>Array.prototype.sort\<close> is stable, and so is \<open>sort_key\<close>.
\<close>

definition sort_tested_desc :: "LatestTestResult list \<Rightarrow> LatestTestResult list" where
  "sort_tested_desc tests = sort_key (\<lambda>t. - tested_at t) tests"

definition filteredTests ::
  "(string \<Rightarrow> string) \<Rightarrow> LatestTestResult list \<Rightarrow> string \<Rightarrow> string \<Rightarrow> string \<Rightarrow>
     LatestTestResult list" where
  "filteredTests toLowerCase testResults searchQuery statusFilter scoreFilter =
     sort_tested_desc
       (filter (\<lambda>test. matchesSearch toLowerCase searchQuery test \<and>
                        matchesStatus statusFilter test \<and>
                        matchesScore scoreFilter test) testResults)"

definition totalTests :: "LatestTestResult list \<Rightarrow> nat" where
  "totalTests testResults = length testResults"

definition passedTests :: "LatestTestResult list \<Rightarrow> nat" where
  "passedTests testResults =
     length (filter (\<lambda>t. getTestStatus (overall_score t) = ''passed'') testResults)"

definition averageDuration :: "LatestTestResult list \<Rightarrow> jsnum" where
  "averageDuration testResults =
     (if totalTests testResults > 0
      then Math_round
             (js_div
                (js_div (foldl (\<lambda>acc test. js_add acc (Fin (test_duration_ms test))) (Fin 0) testResults)
                   (Fin (of_nat (totalTests testResults))))
                (Fin 1000))
      else Fin 0)"

text \<open>The text in the pass-rate badge, before the percent sign.\<close>

definition passRateBadge :: "LatestTestResult list \<Rightarrow> numstr" where
  "passRateBadge testResults =
     (if totalTests testResults > 0
      then toFixed 1
             (js_mul (js_div (Fin (of_nat (passedTests testResults)))
                        (Fin (of_nat (totalTests testResults))))
                (Fin 100))
      else Fixed 0 0)"

section \<open>Sample rows\<close>

text \<open>Concrete rows, on which the theorems below are instantiated.\<close>

definition sample_agent :: "jsval \<Rightarrow> jsval \<Rightarrow> AgentPerformanceSummary" where
  "sample_agent sc cnt =
     \<lparr>agent_version_id = ''av-1'', agent_name = ''Support Bot'', version = ''1.0.0'',
      status = ''active'', last_test_score = sc, last_test_at = None,
      created_at = Some ''2024-01-01'', total_testes_executados = cnt\<rparr>"

definition sample_test :: "string \<Rightarrow> int \<Rightarrow> rat \<Rightarrow> LatestTestResult" where
  "sample_test nm t sc =
     \<lparr>agent_version_id = ''av-1'', agent_name = nm, version = ''1.0.0'',
      test_result_id = ''tr-1'', overall_score = sc, test_duration_ms = 1500, tested_at = t\<rparr>"

text \<open>A sample case mapping: the ASCII letters are lowered, other characters are kept.\<close>

definition ascii_lower_char :: "char \<Rightarrow> char" where
  "ascii_lower_char c =
     (let n = (of_char c :: nat) in if 65 \<le> n \<and> n \<le> 90 then char_of (n + 32) else c)"

definition ascii_toLowerCase :: "string \<Rightarrow> string" where
  "ascii_toLowerCase s = map ascii_lower_char s"

section \<open>Auxiliary facts about the number model\<close>

lemma foldl_js_add_Fin:
  "(\<And>a. a \<in> set xs \<Longrightarrow> g a = Fin (f a)) \<Longrightarrow>
   foldl (\<lambda>sum a. js_add sum (g a)) (Fin s) xs = Fin (s + sum_list (map f xs))"
  by (induction xs arbitrary: s) (simp_all add: add.assoc)

lemma or_zero_no_number: "\<forall>x. v \<noteq> Num x \<Longrightarrow> or_zero v = Fin 0"
  by (cases v) simp_all

lemma ToNumber_Fin: "v \<noteq> Undefined \<Longrightarrow> ToNumber v = Fin (counter_or_0 v)"
  by (cases v) simp_all

lemma floor_half_rat: "\<lfloor>1 / 2 :: rat\<rfloor> = 0"
  by (simp add: floor_eq_iff)

lemma floor_1001_half: "\<lfloor>1001 / 2 :: rat\<rfloor> = 500"
  by (simp add: floor_eq_iff)

lemma Number_toFixed_nonneg:
  "0 \<le> q \<Longrightarrow> q < 10 ^ 21 \<Longrightarrow>
   Number (toFixed 1 (Fin q)) = Fin (of_int \<lfloor>q * 10 + 1 / 2\<rfloor> / 10)"
  by simp

lemma round_tenth_mono:
  fixes a b :: rat
  shows "a \<le> b \<Longrightarrow>
    of_int \<lfloor>a * 10 + 1 / 2\<rfloor> / (10 :: rat) \<le> of_int \<lfloor>b * 10 + 1 / 2\<rfloor> / 10"
proof -
  assume "a \<le> b"
  then have "a * 10 + 1 / 2 \<le> b * 10 + 1 / 2" by simp
  then have "\<lfloor>a * 10 + 1 / 2\<rfloor> \<le> \<lfloor>b * 10 + 1 / 2\<rfloor>" by (rule floor_mono)
  then show ?thesis by (simp add: divide_right_mono)
qed

lemma times_100_mono:
  fixes a b :: rat
  shows "a \<le> b \<Longrightarrow> a * 100 \<le> b * 100"
  by simp

section \<open>Auxiliary facts about rounding to a double\<close>

lemma bit_length_bounds:
  "0 < k \<Longrightarrow> 2 ^ (bit_length k - 1) \<le> k \<and> k < 2 ^ bit_length k"
proof (induction k rule: bit_length.induct)
  case (1 k)
  show ?case
  proof (cases "k div 2 \<le> 0")
    case True
    with "1.prems" have k1: "k = 1" by linarith
    have "bit_length 1 = 1" by (simp add: bit_length.simps)
    with k1 show ?thesis by simp
  next
    case False
    then have pos: "0 < k div 2" by simp
    from "1.prems" have nle: "\<not> k \<le> 0" by simp
    from "1.IH" [OF nle pos] have IH: "2 ^ (bit_length (k div 2) - 1) \<le> k div 2"
      "k div 2 < 2 ^ bit_length (k div 2)" by simp_all
    have bl: "bit_length k = Suc (bit_length (k div 2))"
      using nle by (subst bit_length.simps) simp
    have bpos: "0 < bit_length (k div 2)"
      using pos by (subst bit_length.simps) simp
    then obtain b where b: "bit_length (k div 2) = Suc b" by (cases "bit_length (k div 2)") simp_all
    from IH have "2 ^ b \<le> k div 2" "k div 2 < 2 * 2 ^ b" unfolding b by simp_all
    then have "2 * 2 ^ b \<le> k" "k < 2 * (2 * 2 ^ b)" by linarith+
    then show ?thesis unfolding bl b by simp
  qed
qed


lemma powi_2_diff: "(2 :: rat) powi (int a - int b) = 2 ^ a / 2 ^ b"
  by (simp add: power_int_diff)


lemma ilog2_upper:
  assumes "0 < x"
  shows "x < 2 powi (ilog2 x + 1)"
proof -
  obtain p q where pq: "quotient_of x = (p, q)" by (cases "quotient_of x")
  then have x: "x = of_int p / of_int q" and q: "0 < q"
    by (rule quotient_of_div, rule quotient_of_denom_pos)
  from assms x q have p: "0 < p" by (simp add: zero_less_divide_iff)
  let ?d = "int (bit_length p) - int (bit_length q)"
  show ?thesis
  proof (cases "2 powi ?d \<le> x")
    case False
    then have "ilog2 x + 1 = ?d" by (simp add: ilog2_def pq Let_def)
    with False show ?thesis by simp
  next
    case True
    then have e: "ilog2 x = ?d" by (simp add: ilog2_def pq Let_def)
    from bit_length_bounds [OF p] have "p < 2 ^ bit_length p" by simp
    then have "(of_int p :: rat) < of_int (2 ^ bit_length p)" by (simp only: of_int_less_iff)
    then have up: "(of_int p :: rat) < 2 ^ bit_length p" by simp
    from bit_length_bounds [OF q] have "2 ^ (bit_length q - 1) \<le> q" by simp
    then have "(of_int (2 ^ (bit_length q - 1)) :: rat) \<le> of_int q" by (simp only: of_int_le_iff)
    then have lq: "(2 :: rat) ^ (bit_length q - 1) \<le> of_int q" by simp
    have bq: "0 < bit_length q" using q by (subst bit_length.simps) simp
    have "of_int p / (of_int q :: rat) < 2 ^ bit_length p / of_int q"
      using up q by (simp add: divide_strict_right_mono)
    also have "\<dots> \<le> 2 ^ bit_length p / 2 ^ (bit_length q - 1)"
      using lq q by (intro divide_left_mono) simp_all
    also have "\<dots> = 2 powi (int (bit_length p) - int (bit_length q - 1))"
      by (rule powi_2_diff [symmetric])
    also have "int (bit_length p) - int (bit_length q - 1) = ?d + 1" using bq by simp
    finally have "of_int p / (of_int q :: rat) < 2 powi (?d + 1)" .
    then have "x < 2 powi (?d + 1)" by (simp only: x [symmetric])
    then show ?thesis by (simp only: e)
  qed
qed








section \<open>Properties of fetchDashboardStats\<close>

text \<open>
  C1. When no record carries a numeric \<open>last_test_score\<close> (every score is null or
  absent; the empty collection and a null result included), \<open>fetchDashboardStats\<close>
  returns a result, not an error, and in it \<open>averageScore\<close> and \<open>passRate\<close> are the
  number 0, not \<open>NaN\<close>.
\<close>

theorem no_scores_zero:
  assumes "\<forall>a \<in> set agents. \<forall>x. last_test_score a \<noteq> Num x"
  shows "(\<exists>s. fetchDashboardStats \<lparr>data = Some agents, error = None\<rparr> = Inr s \<and>
              averageScore s = Fin 0 \<and> passRate s = Fin 0) \<and>
         (\<exists>s. fetchDashboardStats \<lparr>data = None, error = None\<rparr> = Inr s \<and>
              averageScore s = Fin 0 \<and> passRate s = Fin 0)"
proof -
  let ?vs = "validScores_of (Some agents)"
  have vs: "\<And>a. a \<in> set ?vs \<Longrightarrow> or_zero (last_test_score a) = Fin 0"
  proof -
    fix a assume "a \<in> set ?vs"
    then have "a \<in> set agents" by (simp add: validScores_of_def)
    with assms have "\<forall>x. last_test_score a \<noteq> Num x" by blast
    then show "or_zero (last_test_score a) = Fin 0" by (rule or_zero_no_number)
  qed
  have sum: "foldl (\<lambda>sum a. js_add sum (or_zero (last_test_score a))) (Fin 0) ?vs = Fin 0"
    using foldl_js_add_Fin [of ?vs "\<lambda>a. or_zero (last_test_score a)" "\<lambda>_. 0" 0] vs
    by simp
  have passed: "filter (\<lambda>a. js_ge (or_zero (last_test_score a)) (Fin 8)) ?vs = []"
    using vs by (simp add: filter_empty_conv)
  show ?thesis
    by (simp add: fetchDashboardStats_def Let_def sum passed validScores_of_def [of None] floor_half_rat)
qed

theorem no_scores_zero_witness:
  "\<exists>s. fetchDashboardStats
          \<lparr>data = Some [sample_agent Null (Num 4), sample_agent Undefined (Num 2)], error = None\<rparr>
        = Inr s \<and> averageScore s = Fin 0 \<and> passRate s = Fin 0"
  using no_scores_zero [of "[sample_agent Null (Num 4), sample_agent Undefined (Num 2)]"]
  by (simp add: sample_agent_def)

text \<open>
  C2, as the specification states it, fails: a record whose counter is absent makes the
  running sum \<open>NaN\<close>, and the final \<open>|| 0\<close> then gives 0, whatever the other counters
  are. Here the counters are 5 and absent; \<open>testsRun\<close> is 0 and not 5.
\<close>

theorem testsRun_missing_counterexample:
  "fetchDashboardStats
     \<lparr>data = Some [sample_agent Null (Num 5), sample_agent Null Undefined], error = None\<rparr>
   = Inr \<lparr>totalAgents = 2, averageScore = Fin 0, testsRun = Fin 0, passRate = Fin 0\<rparr> \<and>
   spec_testsRun [sample_agent Null (Num 5), sample_agent Null Undefined] = 5"
  by (simp add: fetchDashboardStats_def Let_def spec_testsRun_def validScores_of_def
      sample_agent_def floor_half_rat)

text \<open>
  C2, amended. When every record carries its counter, as a number or as null,
  \<open>testsRun\<close> is the sum of the counters, a null counter counting as 0.
\<close>

theorem testsRun_sum:
  assumes "\<forall>a \<in> set agents. total_testes_executados a \<noteq> Undefined"
  shows "\<exists>s. fetchDashboardStats \<lparr>data = Some agents, error = None\<rparr> = Inr s \<and>
             testsRun s = Fin (spec_testsRun agents)"
proof -
  have "\<And>a. a \<in> set agents \<Longrightarrow>
          ToNumber (total_testes_executados a) = Fin (counter_or_0 (total_testes_executados a))"
    using assms by (simp add: ToNumber_Fin)
  from foldl_js_add_Fin [of agents "\<lambda>a. ToNumber (total_testes_executados a)"
        "\<lambda>a. counter_or_0 (total_testes_executados a)" 0, OF this]
  show ?thesis
    by (simp add: fetchDashboardStats_def Let_def spec_testsRun_def)
qed

theorem testsRun_sum_witness:
  "\<exists>s. fetchDashboardStats
          \<lparr>data = Some [sample_agent (Num 9) (Num 5), sample_agent Null Null,
                        sample_agent Null (Num 7)], error = None\<rparr>
        = Inr s \<and> testsRun s = Fin 12"
  using testsRun_sum [of "[sample_agent (Num 9) (Num 5), sample_agent Null Null,
                           sample_agent Null (Num 7)]"]
  by (simp add: sample_agent_def spec_testsRun_def)

text \<open>
  C6. For three records with scores 9.0, 7.5 and null (whatever their other columns
  are), \<open>totalAgents\<close> is 3, \<open>averageScore\<close> is 8.3 and \<open>passRate\<close> is 50.
\<close>

theorem stats_scenario:
  "\<exists>s. fetchDashboardStats
     \<lparr>data = Some [a\<lparr>last_test_score := Num 9\<rparr>, b\<lparr>last_test_score := Num (15 / 2)\<rparr>,
                   c\<lparr>last_test_score := Null\<rparr>],
      error = None\<rparr> = Inr s \<and>
   totalAgents s = 3 \<and> averageScore s = Fin (83 / 10) \<and> passRate s = Fin 50"
  by (simp add: fetchDashboardStats_def Let_def validScores_of_def floor_1001_half)

lemma pass_ratio_mono:
  assumes "p \<le> n"
  shows "(if n = 0 then 0 else of_nat p / of_nat n * 100 :: rat)
         \<le> of_nat (Suc p) / of_nat (Suc n) * 100"
proof (cases "n = 0")
  case True
  then show ?thesis by simp
next
  case False
  have "of_nat p * (of_nat (Suc n) :: rat) \<le> of_nat (Suc p) * of_nat n"
    using assms by (simp add: algebra_simps)
  then have "of_nat p / (of_nat n :: rat) \<le> of_nat (Suc p) / of_nat (Suc n)"
    using False by (simp add: field_simps)
  then have "of_nat p / (of_nat n :: rat) * 100 \<le> of_nat (Suc p) / of_nat (Suc n) * 100"
    by (rule times_100_mono)
  with False show ?thesis by (simp only: if_False)
qed

lemma pass_ratio_bounds:
  assumes "p \<le> n"
  shows "0 \<le> (if n = 0 then 0 else of_nat p / of_nat n * 100 :: rat)"
    and "(if n = 0 then 0 else of_nat p / of_nat n * 100 :: rat) < 10 ^ 21"
proof -
  show "0 \<le> (if n = 0 then 0 else of_nat p / of_nat n * 100 :: rat)" by simp
  show "(if n = 0 then 0 else of_nat p / of_nat n * 100 :: rat) < 10 ^ 21"
  proof (cases "n = 0")
    case True
    then show ?thesis by simp
  next
    case False
    have "of_nat p / (of_nat n :: rat) \<le> 1"
      using assms False by (simp add: field_simps)
    then have "of_nat p / (of_nat n :: rat) * 100 \<le> 1 * 100"
      by (rule times_100_mono)
    also have "(1 * 100 :: rat) < 10 ^ 21" by simp
    finally show ?thesis using False by (simp only: if_False)
  qed
qed

lemma passRate_value:
  fixes agents
  defines "n \<equiv> length (validScores_of (Some agents))"
    and "p \<equiv> length (filter (\<lambda>a. js_ge (or_zero (last_test_score a)) (Fin 8))
                 (validScores_of (Some agents)))"
  shows "\<exists>s. fetchDashboardStats \<lparr>data = Some agents, error = None\<rparr> = Inr s \<and>
     passRate s =
       Fin (of_int \<lfloor>(if n = 0 then 0 else of_nat p / of_nat n * 100 :: rat) * 10 + 1 / 2\<rfloor> / 10)"
proof -
  let ?raw = "if 0 < n then js_mul (js_div (Fin (of_nat p)) (Fin (of_nat n))) (Fin 100) else Fin 0"
  have pn: "p \<le> n" unfolding p_def n_def by simp
  have raw: "?raw = Fin (if n = 0 then 0 else of_nat p / of_nat n * 100)"
    by simp
  obtain s where s: "fetchDashboardStats \<lparr>data = Some agents, error = None\<rparr> = Inr s"
    and pr: "passRate s = Number (toFixed 1 ?raw)"
    unfolding n_def p_def
    by (simp add: fetchDashboardStats_def Let_def del: toFixed.simps Number.simps)
  have "passRate s =
       Fin (of_int \<lfloor>(if n = 0 then 0 else of_nat p / of_nat n * 100 :: rat) * 10 + 1 / 2\<rfloor> / 10)"
    unfolding pr raw by (rule Number_toFixed_nonneg [OF pass_ratio_bounds [OF pn]])
  with s show ?thesis by blast
qed

text \<open>
  C7. Adding one record with a score of at least 8 anywhere in the collection, the other
  records unchanged, never decreases \<open>passRate\<close>: both results exist, both pass rates
  are finite numbers, and the second is at least the first.
\<close>

theorem passRate_monotone:
  assumes "last_test_score a = Num x" and "8 \<le> x"
  shows "\<exists>s s' r r'.
           fetchDashboardStats \<lparr>data = Some (xs @ ys), error = None\<rparr> = Inr s \<and>
           fetchDashboardStats \<lparr>data = Some (xs @ a # ys), error = None\<rparr> = Inr s' \<and>
           passRate s = Fin r \<and> passRate s' = Fin r' \<and> r \<le> r'"
proof -
  let ?pass = "\<lambda>a. js_ge (or_zero (last_test_score a)) (Fin 8)"
  let ?n = "length (validScores_of (Some (xs @ ys)))"
  let ?p = "length (filter ?pass (validScores_of (Some (xs @ ys))))"
  have valid: "validScores_of (Some (xs @ a # ys)) =
      validScores_of (Some xs) @ a # validScores_of (Some ys)"
    using assms by (simp add: validScores_of_def)
  have valid0: "validScores_of (Some (xs @ ys)) = validScores_of (Some xs) @ validScores_of (Some ys)"
    by (simp add: validScores_of_def)
  have pa: "?pass a" using assms by simp
  have n': "length (validScores_of (Some (xs @ a # ys))) = Suc ?n"
    by (simp add: valid valid0)
  have p': "length (filter ?pass (validScores_of (Some (xs @ a # ys)))) = Suc ?p"
    using pa by (simp add: valid valid0)
  have pn: "?p \<le> ?n" by simp
  from passRate_value [of "xs @ ys"] obtain s where
    s: "fetchDashboardStats \<lparr>data = Some (xs @ ys), error = None\<rparr> = Inr s"
       "passRate s = Fin (of_int \<lfloor>(if ?n = 0 then 0 else of_nat ?p / of_nat ?n * 100 :: rat) * 10 + 1 / 2\<rfloor> / 10)"
    by blast
  from passRate_value [of "xs @ a # ys"] obtain s' where
    s': "fetchDashboardStats \<lparr>data = Some (xs @ a # ys), error = None\<rparr> = Inr s'"
       "passRate s' = Fin (of_int \<lfloor>(of_nat (Suc ?p) / of_nat (Suc ?n) * 100 :: rat) * 10 + 1 / 2\<rfloor> / 10)"
    unfolding n' p' by auto
  note round_tenth_mono [OF pass_ratio_mono [OF pn]]
  with s s' show ?thesis by blast
qed

theorem passRate_monotone_witness:
  "\<exists>s s' r r'.
     fetchDashboardStats \<lparr>data = Some ([sample_agent (Num 5) Null] @ [sample_agent Null Null]),
        error = None\<rparr> = Inr s \<and>
     fetchDashboardStats \<lparr>data = Some ([sample_agent (Num 5) Null] @ sample_agent (Num 9) Null #
        [sample_agent Null Null]), error = None\<rparr> = Inr s' \<and>
     passRate s = Fin r \<and> passRate s' = Fin r' \<and> r \<le> r'"
  using passRate_monotone [where a = "sample_agent (Num 9) Null" and x = 9
      and xs = "[sample_agent (Num 5) Null]" and ys = "[sample_agent Null Null]"]
  by (simp add: sample_agent_def)


section \<open>Properties of fetchScoreHistory\<close>

lemma week_key_eval:
  "week_key (- 18000000) 1704675600000 = 19730"
  "week_key (- 18000000) 1704726000000 = 19729"
  "week_key 0 1704675600000 = 19729"
  "week_key 0 1704726000000 = 19729"
  by (simp_all add: week_key_def weekStart_def getDay_def WeekDay_def Day_def LocalTime_def
      UTC_def msPerDay_def)


lemma double_mean_samples:
  "double_mean [8] = Fin 8"
  "double_mean [9] = Fin 9"
  "double_mean [8, 9] = Fin (17 / 2)"
  by code_simp+



lemma push_keys: "map fst (push m k v) = map fst m"
  by (induction m) (auto simp: push_def)


lemma add_test_keys:
  "map fst (add_test tza m t) =
     (if week_key tza (tested_at t) \<in> set (map fst m) then map fst m
      else map fst m @ [week_key tza (tested_at t)])"
  by (simp add: add_test_def Let_def has_def push_keys)


lemma weekly_keys_set:
  "set (map fst (foldl (add_test tza) [] tests)) = (\<lambda>t. week_key tza (tested_at t)) ` set tests"
proof (induction tests rule: rev_induct)
  case Nil
  show ?case by simp
next
  case (snoc t tests)
  have "set (map fst (add_test tza (foldl (add_test tza) [] tests) t)) =
        insert (week_key tza (tested_at t)) (set (map fst (foldl (add_test tza) [] tests)))"
    unfolding add_test_keys by auto
  with snoc show ?case by simp
qed

lemma weekly_keys_distinct: "distinct (map fst (foldl (add_test tza) [] tests))"
proof (induction tests rule: rev_induct)
  case Nil
  show ?case by simp
next
  case (snoc t tests)
  then show ?case unfolding foldl_append foldl_Cons foldl_Nil add_test_keys by simp
qed








text \<open>
  When the local time zone is UTC, the week key does not decrease with the timestamp,
  and rows fetched in ascending order give at most 5 points, strictly ascending by date:
  the 5 latest week keys of the input.
\<close>

lemma week_key_utc: "week_key 0 t = Day t - (Day t + 4) mod 7"
  by (simp add: week_key_def weekStart_def getDay_def WeekDay_def Day_def LocalTime_def UTC_def
      msPerDay_def)

lemma week_start_day_mono:
  fixes d d' :: int
  shows "d \<le> d' \<Longrightarrow> d - (d + 4) mod 7 \<le> d' - (d' + 4) mod 7"
  by presburger

lemma week_key_utc_mono: "t \<le> t' \<Longrightarrow> week_key 0 t \<le> week_key 0 t'"
proof -
  assume "t \<le> t'"
  then have "Day t \<le> Day t'" unfolding Day_def msPerDay_def by (rule zdiv_mono1) simp
  then show ?thesis unfolding week_key_utc by (rule week_start_day_mono)
qed

lemma weekly_keys_sorted_utc:
  "sorted (map tested_at tests) \<Longrightarrow> sorted_wrt (<) (map fst (foldl (add_test 0) [] tests))"
proof (induction tests rule: rev_induct)
  case Nil
  show ?case by simp
next
  case (snoc t tests)
  let ?m = "foldl (add_test 0) [] tests"
  let ?k' = "week_key 0 (tested_at t)"
  from snoc.prems have srt: "sorted (map tested_at tests)"
    and le: "\<forall>x \<in> set tests. tested_at x \<le> tested_at t"
    by (auto simp: sorted_append)
  from snoc.IH [OF srt] have IH: "sorted_wrt (<) (map fst ?m)" .
  show ?case
  proof (cases "?k' \<in> set (map fst ?m)")
    case True
    with IH show ?thesis
      unfolding foldl_append foldl_Cons foldl_Nil add_test_keys by simp
  next
    case False
    have "\<forall>k \<in> set (map fst ?m). k < ?k'"
    proof
      fix k assume k: "k \<in> set (map fst ?m)"
      then have "k \<in> (\<lambda>t. week_key 0 (tested_at t)) ` set tests"
        unfolding weekly_keys_set .
      then obtain x where "x \<in> set tests" and kx: "k = week_key 0 (tested_at x)" by blast
      with le have "tested_at x \<le> tested_at t" by blast
      then have "k \<le> ?k'" unfolding kx by (rule week_key_utc_mono)
      moreover have "k \<noteq> ?k'" using k False by blast
      ultimately show "k < ?k'" by simp
    qed
    with IH False show ?thesis
      unfolding foldl_append foldl_Cons foldl_Nil add_test_keys
      by (simp add: sorted_wrt_append)
  qed
qed

lemma date_week_point: "date (week_point e) = fst e"
  by (cases e) (simp add: week_point_def)

lemma map_date_week_point: "map date (map week_point m) = map fst m"
  by (simp add: date_week_point)

lemma scoreHistory_utc_ascending:
  assumes "sorted (map tested_at tests)"
    and "fetchScoreHistory 0 \<lparr>data = Some tests, error = None\<rparr> = Inr pts"
  shows "length pts \<le> 5 \<and> sorted_wrt (<) (map date pts) \<and>
         map date pts =
           slice_last 5 (sorted_list_of_set ((\<lambda>t. week_key 0 (tested_at t)) ` set tests))"
proof -
  let ?m = "foldl (add_test 0) [] tests"
  from assms(2) have pts: "pts = slice_last 5 (map week_point ?m)"
    by (simp add: fetchScoreHistory_def)
  have dates: "map date pts = slice_last 5 (map fst ?m)"
    unfolding pts slice_last_def drop_map [symmetric] map_date_week_point by simp
  have strict: "sorted_wrt (<) (map fst ?m)"
    using assms(1) by (rule weekly_keys_sorted_utc)
  then have "sorted (map fst ?m)" "distinct (map fst ?m)"
    by (simp_all add: strict_sorted_iff)
  then have keys: "map fst ?m = sorted_list_of_set ((\<lambda>t. week_key 0 (tested_at t)) ` set tests)"
    using weekly_keys_set [of 0 tests] by (metis sorted_list_of_set.idem_if_sorted_distinct)
  have len: "length pts \<le> 5" unfolding pts slice_last_def by simp
  have asc: "sorted_wrt (<) (map date pts)"
    unfolding dates slice_last_def using strict by (rule sorted_wrt_drop)
  from len asc dates keys show ?thesis by simp
qed

text \<open>
  C3. The property: for rows fetched in ascending order of \<open>tested_at\<close>,
  \<open>fetchScoreHistory\<close> returns at most 5 points, strictly ascending by date, the 5 most
  recent weeks. The code breaks it when the local time zone is not UTC: the week is found
  with the local-time getters and the key is then printed with \<open>toISOString\<close>, which is
  UTC, so the key may decrease while the timestamp increases. Five hours west of UTC, the
  rows tested at 2024-01-08T01:00Z (still Sunday the 7th locally) and at 2024-01-08T15:00Z
  (Monday locally, moved back one day), fetched in ascending order, give the dates
  2024-01-08 and then 2024-01-07 (days 19730 and 19729): two buckets for one week, in
  descending order.
\<close>

theorem scoreHistory_local_zone_not_ascending:
  "fetchScoreHistory (- 18000000)
     \<lparr>data = Some [sample_test ''Support Bot'' 1704675600000 8,
                   sample_test ''Support Bot'' 1704726000000 9], error = None\<rparr>
   = Inr [\<lparr>date = 19730, score = Fin 8\<rparr>, \<lparr>date = 19729, score = Fin 9\<rparr>]"
  by (simp add: fetchScoreHistory_def add_test_def has_def push_def week_point_def slice_last_def
      sample_test_def week_key_eval Let_def double_mean_samples floor_eq_iff)

section \<open>Properties of the test-history page\<close>

text \<open>
  C5. The status classifier is total and partitions the scores: a score is mapped to
  passed exactly when it is at least 8, to warning exactly when it is at least 6 and
  below 8, to failed exactly when it is below 6; so every score has exactly one of the
  three statuses, and the boundaries 8 and 6 are passed and warning.
\<close>

theorem getTestStatus_partition:
  "(getTestStatus s = ''passed'' \<longleftrightarrow> 8 \<le> s) \<and>
   (getTestStatus s = ''warning'' \<longleftrightarrow> 6 \<le> s \<and> s < 8) \<and>
   (getTestStatus s = ''failed'' \<longleftrightarrow> s < 6) \<and>
   getTestStatus s \<in> {''passed'', ''warning'', ''failed''} \<and>
   getTestStatus 8 = ''passed'' \<and> getTestStatus 6 = ''warning''"
  by (auto simp: getTestStatus_def)

lemma str_includes_empty: "str_includes s []"
  by (cases s) simp_all

lemma starts_with_iff: "starts_with s q \<longleftrightarrow> (\<exists>post. s = q @ post)"
  by (induction s q rule: starts_with.induct) auto

lemma str_includes_iff: "str_includes s q \<longleftrightarrow> (\<exists>pre post. s = pre @ q @ post)"
proof (induction s)
  case Nil
  show ?case by auto
next
  case (Cons c cs)
  show ?case
  proof
    assume "str_includes (c # cs) q"
    then consider "starts_with (c # cs) q" | "str_includes cs q" by auto
    then show "\<exists>pre post. c # cs = pre @ q @ post"
    proof cases
      case 1
      then obtain post where "c # cs = q @ post" unfolding starts_with_iff by blast
      then have "c # cs = [] @ q @ post" by simp
      then show ?thesis by blast
    next
      case 2
      with Cons obtain pre post where "cs = pre @ q @ post" by blast
      then have "c # cs = (c # pre) @ q @ post" by simp
      then show ?thesis by blast
    qed
  next
    assume "\<exists>pre post. c # cs = pre @ q @ post"
    then obtain pre post where eq: "c # cs = pre @ q @ post" by blast
    show "str_includes (c # cs) q"
    proof (cases pre)
      case Nil
      with eq have "starts_with (c # cs) q" unfolding starts_with_iff by auto
      then show ?thesis by simp
    next
      case (Cons p pre')
      with eq have "cs = pre' @ q @ post" by simp
      then have "str_includes cs q" using Cons.IH by blast
      then show ?thesis by simp
    qed
  qed
qed

lemma sort_tested_desc_sorted:
  "sorted_wrt (\<lambda>a b. tested_at a \<ge> tested_at b) (sort_tested_desc xs)"
proof -
  have "sorted (map (\<lambda>t. - tested_at t) (sort_key (\<lambda>t. - tested_at t) xs))"
    by (rule sorted_sort_key)
  then show ?thesis
    by (simp add: sorted_map sort_tested_desc_def)
qed

text \<open>
  C8. The three criteria are: the lowered query occurs in the lowered agent name; the
  status filter is all or the status of the score (passed from 8, warning from 6 and
  below 8, failed below 6); the score filter is all, or high with a score from 8, medium
  with a score from 7 and below 8, low with a score below 7. Filtering by the three one
  after the other, in any of the six orders, and then sorting gives the list of the page.
  The result holds exactly the records (with their multiplicities) that satisfy all three
  criteria, it is sorted by \<open>tested_at\<close> descending, and the empty query and the filter
  value all exclude no record. Of the case mapping only this is used: it maps the empty
  string to itself.
\<close>

theorem filteredTests_conjunction:
  assumes "toLowerCase [] = []"
  shows
  "filteredTests toLowerCase tests q sf scf =
     sort_tested_desc (filter (matchesSearch toLowerCase q)
       (filter (matchesStatus sf) (filter (matchesScore scf) tests))) \<and>
   filteredTests toLowerCase tests q sf scf =
     sort_tested_desc (filter (matchesSearch toLowerCase q)
       (filter (matchesScore scf) (filter (matchesStatus sf) tests))) \<and>
   filteredTests toLowerCase tests q sf scf =
     sort_tested_desc (filter (matchesStatus sf)
       (filter (matchesSearch toLowerCase q) (filter (matchesScore scf) tests))) \<and>
   filteredTests toLowerCase tests q sf scf =
     sort_tested_desc (filter (matchesStatus sf)
       (filter (matchesScore scf) (filter (matchesSearch toLowerCase q) tests))) \<and>
   filteredTests toLowerCase tests q sf scf =
     sort_tested_desc (filter (matchesScore scf)
       (filter (matchesSearch toLowerCase q) (filter (matchesStatus sf) tests))) \<and>
   filteredTests toLowerCase tests q sf scf =
     sort_tested_desc (filter (matchesScore scf)
       (filter (matchesStatus sf) (filter (matchesSearch toLowerCase q) tests))) \<and>
   mset (filteredTests toLowerCase tests q sf scf) =
     filter_mset (\<lambda>t. matchesSearch toLowerCase q t \<and> matchesStatus sf t \<and> matchesScore scf t)
       (mset tests) \<and>
   sorted_wrt (\<lambda>a b. tested_at a \<ge> tested_at b) (filteredTests toLowerCase tests q sf scf) \<and>
   matchesSearch toLowerCase [] t \<and> matchesStatus ''all'' t \<and> matchesScore ''all'' t \<and>
   mset (filteredTests toLowerCase tests [] ''all'' ''all'') = mset tests \<and>
   (matchesSearch toLowerCase q t \<longleftrightarrow>
      (\<exists>pre post. toLowerCase (agent_name t) = pre @ toLowerCase q @ post)) \<and>
   (matchesStatus sf t \<longleftrightarrow>
      sf = ''all'' \<or> (sf = ''passed'' \<and> 8 \<le> overall_score t) \<or>
      (sf = ''warning'' \<and> 6 \<le> overall_score t \<and> overall_score t < 8) \<or>
      (sf = ''failed'' \<and> overall_score t < 6)) \<and>
   (matchesScore scf t \<longleftrightarrow>
      scf = ''all'' \<or> (scf = ''high'' \<and> 8 \<le> overall_score t) \<or>
      (scf = ''medium'' \<and> 7 \<le> overall_score t \<and> overall_score t < 8) \<or>
      (scf = ''low'' \<and> overall_score t < 7))"
proof -
  have orders:
    "filteredTests toLowerCase tests q sf scf =
       sort_tested_desc (filter (matchesSearch toLowerCase q)
         (filter (matchesStatus sf) (filter (matchesScore scf) tests)))"
    "filteredTests toLowerCase tests q sf scf =
       sort_tested_desc (filter (matchesSearch toLowerCase q)
         (filter (matchesScore scf) (filter (matchesStatus sf) tests)))"
    "filteredTests toLowerCase tests q sf scf =
       sort_tested_desc (filter (matchesStatus sf)
         (filter (matchesSearch toLowerCase q) (filter (matchesScore scf) tests)))"
    "filteredTests toLowerCase tests q sf scf =
       sort_tested_desc (filter (matchesStatus sf)
         (filter (matchesScore scf) (filter (matchesSearch toLowerCase q) tests)))"
    "filteredTests toLowerCase tests q sf scf =
       sort_tested_desc (filter (matchesScore scf)
         (filter (matchesSearch toLowerCase q) (filter (matchesStatus sf) tests)))"
    "filteredTests toLowerCase tests q sf scf =
       sort_tested_desc (filter (matchesScore scf)
         (filter (matchesStatus sf) (filter (matchesSearch toLowerCase q) tests)))"
    by (simp_all add: filteredTests_def conj_ac)
  have ms: "mset (filteredTests toLowerCase tests q sf scf) =
     filter_mset (\<lambda>t. matchesSearch toLowerCase q t \<and> matchesStatus sf t \<and> matchesScore scf t)
       (mset tests)"
    by (simp add: filteredTests_def sort_tested_desc_def)
  have srt: "sorted_wrt (\<lambda>a b. tested_at a \<ge> tested_at b)
      (filteredTests toLowerCase tests q sf scf)"
    unfolding filteredTests_def by (rule sort_tested_desc_sorted)
  have search: "\<And>q'. matchesSearch toLowerCase q' t \<longleftrightarrow>
      (\<exists>pre post. toLowerCase (agent_name t) = pre @ toLowerCase q' @ post)"
    unfolding matchesSearch_def by (rule str_includes_iff)
  have pass_search: "\<And>t'. matchesSearch toLowerCase [] t'"
    unfolding matchesSearch_def assms by (rule str_includes_empty)
  have pass: "matchesStatus ''all'' t" "matchesScore ''all'' t"
    by (simp_all add: matchesStatus_def matchesScore_def)
  have all: "mset (filteredTests toLowerCase tests [] ''all'' ''all'') = mset tests"
    by (simp add: filteredTests_def sort_tested_desc_def pass_search matchesStatus_def
        matchesScore_def)
  have status: "matchesStatus sf t \<longleftrightarrow>
      sf = ''all'' \<or> (sf = ''passed'' \<and> 8 \<le> overall_score t) \<or>
      (sf = ''warning'' \<and> 6 \<le> overall_score t \<and> overall_score t < 8) \<or>
      (sf = ''failed'' \<and> overall_score t < 6)"
    unfolding matchesStatus_def getTestStatus_def by auto
  have band: "matchesScore scf t \<longleftrightarrow>
      scf = ''all'' \<or> (scf = ''high'' \<and> 8 \<le> overall_score t) \<or>
      (scf = ''medium'' \<and> 7 \<le> overall_score t \<and> overall_score t < 8) \<or>
      (scf = ''low'' \<and> overall_score t < 7)"
    unfolding matchesScore_def by (rule refl)
  from orders ms srt pass_search [of t] pass all search [of q] status band
  show ?thesis by (intro conjI)
qed

lemma filteredTests_sample:
  "filteredTests ascii_toLowerCase
     [sample_test ''Support Bot'' 100 9, sample_test ''Sales BOT'' 300 (17 / 2),
      sample_test ''Billing'' 200 9, sample_test ''Helper bot'' 400 7]
     ''bot'' ''passed'' ''high''
   = [sample_test ''Sales BOT'' 300 (17 / 2), sample_test ''Support Bot'' 100 9]"
  by code_simp

theorem filteredTests_conjunction_witness:
  "ascii_toLowerCase [] = [] \<and>
   sort_tested_desc (filter (matchesScore ''high'') (filter (matchesStatus ''passed'')
     (filter (matchesSearch ascii_toLowerCase ''bot'')
       [sample_test ''Support Bot'' 100 9, sample_test ''Sales BOT'' 300 (17 / 2),
        sample_test ''Billing'' 200 9, sample_test ''Helper bot'' 400 7])))
   = [sample_test ''Sales BOT'' 300 (17 / 2), sample_test ''Support Bot'' 100 9]"
proof -
  have lc: "ascii_toLowerCase [] = []" by (simp add: ascii_toLowerCase_def)
  note all = filteredTests_conjunction [where toLowerCase = ascii_toLowerCase
      and tests = "[sample_test ''Support Bot'' 100 9, sample_test ''Sales BOT'' 300 (17 / 2),
           sample_test ''Billing'' 200 9, sample_test ''Helper bot'' 400 7]"
      and q = "''bot''" and sf = "''passed''" and scf = "''high''", OF lc]
  from all [THEN conjunct2, THEN conjunct2, THEN conjunct2, THEN conjunct2, THEN conjunct2,
      THEN conjunct1]
  have "sort_tested_desc (filter (matchesScore ''high'') (filter (matchesStatus ''passed'')
     (filter (matchesSearch ascii_toLowerCase ''bot'')
       [sample_test ''Support Bot'' 100 9, sample_test ''Sales BOT'' 300 (17 / 2),
        sample_test ''Billing'' 200 9, sample_test ''Helper bot'' 400 7])))
   = [sample_test ''Sales BOT'' 300 (17 / 2), sample_test ''Support Bot'' 100 9]"
    unfolding filteredTests_sample by (rule sym)
  with lc show ?thesis by (rule conjI)
qed

lemma averageDuration_finite: "\<exists>q. averageDuration tests = Fin q"
proof (cases "totalTests tests > 0")
  case True
  have "foldl (\<lambda>acc test. js_add acc (Fin (test_duration_ms test))) (Fin 0) tests
        = Fin (0 + sum_list (map test_duration_ms tests))"
    by (rule foldl_js_add_Fin) simp
  with True show ?thesis by (simp add: averageDuration_def)
next
  case False
  then show ?thesis by (simp add: averageDuration_def)
qed

lemma passRateBadge_fixed: "\<exists>n f. passRateBadge tests = Fixed n f"
proof (cases "totalTests tests > 0")
  case True
  let ?n = "totalTests tests" and ?p = "passedTests tests"
  have pn: "?p \<le> ?n" by (simp add: passedTests_def totalTests_def)
  have n0: "?n \<noteq> 0" using True by simp
  have raw: "js_mul (js_div (Fin (of_nat ?p)) (Fin (of_nat ?n))) (Fin 100)
             = Fin (of_nat ?p / of_nat ?n * 100)"
    using n0 by simp
  have "of_nat ?p / (of_nat ?n :: rat) \<le> 1" using pn n0 by (simp add: field_simps)
  then have "of_nat ?p / (of_nat ?n :: rat) * 100 \<le> 1 * 100" by (rule times_100_mono)
  then have b: "\<bar>of_nat ?p / (of_nat ?n :: rat) * 100\<bar> < 10 ^ 21" by simp
  have "passRateBadge tests = toFixed 1 (Fin (of_nat ?p / of_nat ?n * 100))"
    using True unfolding passRateBadge_def raw by simp
  with b show ?thesis by simp
next
  case False
  then show ?thesis by (simp add: passRateBadge_def)
qed

text \<open>
  C10. With no test records \<open>averageDuration\<close> is 0 and the pass-rate badge shows the text
  0; and for every list of test records \<open>averageDuration\<close> is a finite number and the
  badge is a decimal numeral, so neither is ever \<open>NaN\<close>.
\<close>

theorem tests_page_stats_defined:
  "averageDuration [] = Fin 0 \<and> passRateBadge [] = Fixed 0 0 \<and>
   (\<exists>q. averageDuration tests = Fin q) \<and> averageDuration tests \<noteq> NaN \<and>
   (\<exists>n f. passRateBadge tests = Fixed n f) \<and> Number (passRateBadge tests) \<noteq> NaN"
proof -
  obtain q where q: "averageDuration tests = Fin q" using averageDuration_finite by blast
  obtain n f where nf: "passRateBadge tests = Fixed n f" using passRateBadge_fixed by blast
  show ?thesis
    unfolding q nf by (simp add: averageDuration_def passRateBadge_def totalTests_def)
qed

section \<open>Properties of mapAgentToLegacyFormat\<close>

text \<open>
  C9. The mapper copies identity, name, version and status. \<open>lastEvaluation\<close> is
  \<open>last_test_at\<close> when that is present (a timestamp, so a non-empty string) and
  \<open>created_at\<close> when \<open>last_test_at\<close> is null, and it is never null when \<open>created_at\<close> is
  not. The score is \<open>last_test_score\<close> when that is a number and 0 when it is null or
  absent. A row with \<open>last_test_at\<close> null and \<open>created_at\<close> 2024-01-01 gets
  \<open>lastEvaluation\<close> 2024-01-01.
\<close>

theorem mapAgentToLegacyFormat_fields:
  "legacy_id (mapAgentToLegacyFormat a) = agent_version_id a \<and>
   legacy_name (mapAgentToLegacyFormat a) = agent_name a \<and>
   legacy_version (mapAgentToLegacyFormat a) = version a \<and>
   legacy_status (mapAgentToLegacyFormat a) = status a \<and>
   (\<forall>t. last_test_at a = Some t \<and> t \<noteq> [] \<longrightarrow> lastEvaluation (mapAgentToLegacyFormat a) = Some t) \<and>
   (last_test_at a = None \<longrightarrow> lastEvaluation (mapAgentToLegacyFormat a) = created_at a) \<and>
   (created_at a \<noteq> None \<longrightarrow> lastEvaluation (mapAgentToLegacyFormat a) \<noteq> None) \<and>
   (\<forall>x. last_test_score a = Num x \<longrightarrow> legacy_score (mapAgentToLegacyFormat a) = Fin x) \<and>
   (last_test_score a = Null \<or> last_test_score a = Undefined \<longrightarrow>
      legacy_score (mapAgentToLegacyFormat a) = Fin 0) \<and>
   lastEvaluation (mapAgentToLegacyFormat (a\<lparr>last_test_at := None, created_at := Some ''2024-01-01''\<rparr>))
     = Some ''2024-01-01''"
  by (cases "last_test_at a") (auto simp: mapAgentToLegacyFormat_def)

theorem mapAgentToLegacyFormat_fields_witness:
  "lastEvaluation (mapAgentToLegacyFormat (sample_agent (Num 9) (Num 3))) = Some ''2024-01-01'' \<and>
   lastEvaluation (mapAgentToLegacyFormat
      ((sample_agent (Num 9) (Num 3))\<lparr>last_test_at := Some ''2024-02-03T10:00:00Z''\<rparr>))
     = Some ''2024-02-03T10:00:00Z'' \<and>
   legacy_score (mapAgentToLegacyFormat (sample_agent (Num 9) (Num 3))) = Fin 9 \<and>
   legacy_score (mapAgentToLegacyFormat (sample_agent Null (Num 3))) = Fin 0"
  using mapAgentToLegacyFormat_fields [of "sample_agent (Num 9) (Num 3)"]
    mapAgentToLegacyFormat_fields [of "(sample_agent (Num 9) (Num 3))\<lparr>last_test_at := Some ''2024-02-03T10:00:00Z''\<rparr>"]
    mapAgentToLegacyFormat_fields [of "sample_agent Null (Num 3)"]
  by (simp add: sample_agent_def)

end
